theory Spec2Isabelle
  imports Complex_Main
begin

section \<open>Fit Castle API: the body-recomposition recommendation\<close>

text \<open>
  The development embeds \<^verbatim>\<open>recommend_plan\<close> of \<^verbatim>\<open>main.py\<close> together with the
  pydantic models of \<^verbatim>\<open>schemas.py\<close> it reads and builds. Python's \<^verbatim>\<open>int\<close> is
  \<open>int\<close>, \<^verbatim>\<open>str\<close> is \<open>string\<close>, \<^verbatim>\<open>Optional[t]\<close> is \<open>t option\<close>. A \<^verbatim>\<open>float\<close>
  field is a \<open>real\<close>: each one carries a \<^verbatim>\<open>ge\<close>/\<^verbatim>\<open>le\<close> bound in the schema, so a
  validated value is a finite number, and the code only tests it against \<open>0\<close> and
  compares it with \<open>25\<close>.
\<close>

subsection \<open>Data model (schemas.py)\<close>

record BodyMetric =
  gender :: string
  age :: int
  height_cm :: real
  weight_kg :: real
  waist_cm :: "real option"
  hip_cm :: "real option"
  neck_cm :: "real option"
  body_fat_pct :: "real option"
  activity_level :: string
  goal :: string
  member_id :: "string option"

record ExerciseItem =
  name :: string
  sets :: int
  reps :: string
  frequency_per_week :: int

record Recommendation =
  body_metric_id :: "string option"
  summary :: string
  weekly_plan :: "ExerciseItem list"

text \<open>An optional field with \<^verbatim>\<open>Field(None, ge=lo, le=hi)\<close>: absent, or within the bounds.\<close>

definition opt_between :: "real \<Rightarrow> real \<Rightarrow> real option \<Rightarrow> bool" where
  "opt_between lo hi v = (case v of None \<Rightarrow> True | Some x \<Rightarrow> lo \<le> x \<and> x \<le> hi)"

text \<open>
  What pydantic accepts as a \<^verbatim>\<open>BodyMetric\<close> (schemas.py, lines 56-67): the \<^verbatim>\<open>Literal\<close>
  enumerations and the numeric bounds of the fields.
\<close>

definition valid_BodyMetric :: "BodyMetric \<Rightarrow> bool" where
  "valid_BodyMetric m =
     (gender m \<in> set [''male'', ''female''] \<and>
      12 \<le> age m \<and> age m \<le> 90 \<and>
      120 \<le> height_cm m \<and> height_cm m \<le> 230 \<and>
      30 \<le> weight_kg m \<and> weight_kg m \<le> 250 \<and>
      opt_between 40 200 (waist_cm m) \<and>
      opt_between 40 200 (hip_cm m) \<and>
      opt_between 20 60 (neck_cm m) \<and>
      opt_between 3 60 (body_fat_pct m) \<and>
      activity_level m \<in> set [''sedentary'', ''light'', ''moderate'', ''active'', ''athlete''] \<and>
      goal m \<in> set [''fat_loss'', ''muscle_gain'', ''recomp''])"

subsection \<open>Exceptions and the storage gateway\<close>

text \<open>
  \<^verbatim>\<open>Exception\<close> carries the text that \<^verbatim>\<open>str(e)\<close> gives; \<^verbatim>\<open>HTTPException\<close> carries
  the status code and the detail.
\<close>

datatype exn = Exception string

datatype http_error = HTTPException int string

text \<open>
  The two records \<^verbatim>\<open>recommend_plan\<close> hands to \<^verbatim>\<open>create_document\<close>: the metrics model,
  and the dictionary with keys \<^verbatim>\<open>body_metric_id\<close>, \<^verbatim>\<open>summary\<close> and \<^verbatim>\<open>weekly_plan\<close>
  (the items as \<^verbatim>\<open>model_dump()\<close> gives them, field by field).
\<close>

datatype document =
  BodyMetricDoc BodyMetric
| RecommendationDoc string string "ExerciseItem list"

text \<open>
  \<^verbatim>\<open>create_document\<close> is imported from the \<^verbatim>\<open>database\<close> module, which is not part of
  the sources at hand, so it is a parameter: from the store, the collection name and
  the record it either raises or returns the new id, and leaves a store behind. Every
  theorem below holds for any such function over any type of store.
\<close>

type_synonym 's gateway = "'s \<Rightarrow> string \<Rightarrow> document \<Rightarrow> (exn + string) \<times> 's"

subsection \<open>The plan (main.py, lines 136-161)\<close>

text \<open>The local helper \<^verbatim>\<open>add\<close>: appends one item to \<^verbatim>\<open>plan\<close>.\<close>

definition add :: "string \<Rightarrow> int \<Rightarrow> string \<Rightarrow> int \<Rightarrow> ExerciseItem list \<Rightarrow> ExerciseItem list" where
  "add nm s r freq plan =
     plan @ [\<lparr>name = nm, sets = s, reps = r, frequency_per_week = freq\<rparr>]"

text \<open>Lines 141-153: the \<^verbatim>\<open>if\<close>/\<^verbatim>\<open>elif\<close>/\<^verbatim>\<open>else\<close> on \<^verbatim>\<open>goal\<close>, starting from the empty plan.\<close>

definition base_plan :: "string \<Rightarrow> ExerciseItem list" where
  "base_plan g =
     (let plan = [] in
      if g = ''fat_loss'' then
        let plan = add ''Treadmill Intervals'' 6 ''1 min fast / 2 min easy'' 3 plan;
            plan = add ''Full-Body Circuit'' 4 ''12-15 reps'' 2 plan;
            plan = add ''Core Stability'' 3 ''12-15 reps'' 2 plan
        in plan
      else if g = ''muscle_gain'' then
        let plan = add ''Barbell Squat'' 5 ''5-8 reps'' 2 plan;
            plan = add ''Bench Press'' 5 ''5-8 reps'' 2 plan;
            plan = add ''Deadlift'' 3 ''3-5 reps'' 1 plan;
            plan = add ''Accessory (Rows, Press, Pull-ups)'' 4 ''8-12 reps'' 2 plan
        in plan
      else
        let plan = add ''Upper/Lower Split Strength'' 4 ''6-10 reps'' 3 plan;
            plan = add ''Zone 2 Cardio'' 1 ''30-40 mins'' 2 plan;
            plan = add ''Mobility & Core'' 3 ''10-15 reps'' 2 plan
        in plan)"

text \<open>
  A read of \<^verbatim>\<open>plan[i]\<close> for \<open>i\<close> taken from a \<^verbatim>\<open>range\<close> (so never negative): Python
  raises \<^verbatim>\<open>IndexError\<close> past the end of the list.
\<close>

definition item_at :: "ExerciseItem list \<Rightarrow> nat \<Rightarrow> exn + ExerciseItem" where
  "item_at plan i =
     (if i < length plan then Inr (plan ! i) else Inl (Exception ''list index out of range''))"

text \<open>
  The loop \<^verbatim>\<open>for i in <indices>: plan[i].frequency_per_week = f(plan[i].frequency_per_week)\<close>
  of lines 157-158 and 160-161. The items are objects held by the list, so the assignment
  replaces the item at position \<open>i\<close>; the first failing read ends the loop.
\<close>

fun set_frequencies :: "(int \<Rightarrow> int) \<Rightarrow> nat list \<Rightarrow> ExerciseItem list \<Rightarrow> exn + ExerciseItem list" where
  "set_frequencies f [] plan = Inr plan"
| "set_frequencies f (i # rest) plan =
     (case item_at plan i of
        Inl e \<Rightarrow> Inl e
      | Inr it \<Rightarrow>
          set_frequencies f rest (plan[i := it\<lparr>frequency_per_week := f (frequency_per_week it)\<rparr>]))"

text \<open>Lines 155-161; \<^verbatim>\<open>range(len(plan))\<close> is \<open>[0..<length plan]\<close>.\<close>

definition adjust_frequency :: "string \<Rightarrow> ExerciseItem list \<Rightarrow> exn + ExerciseItem list" where
  "adjust_frequency activity plan =
     (if activity \<in> set [''sedentary'', ''light''] then
        set_frequencies (\<lambda>fr. max 1 (fr - 1)) [0..<length plan] plan
      else if activity \<in> set [''athlete''] then
        set_frequencies (\<lambda>fr. fr + 1) [0..<length plan] plan
      else Inr plan)"

subsection \<open>The summary (main.py, lines 163-165)\<close>

text \<open>
  \<^verbatim>\<open>bf and goal == "fat_loss" and bf > 25\<close>: \<^verbatim>\<open>bf\<close> is falsy when it is \<^verbatim>\<open>None\<close> and when
  it is \<open>0\<close>, and the comparison is reached only with a number.
\<close>

definition suffix_applies :: "real option \<Rightarrow> string \<Rightarrow> bool" where
  "suffix_applies bf g =
     (case bf of None \<Rightarrow> False | Some x \<Rightarrow> x \<noteq> 0 \<and> g = ''fat_loss'' \<and> x > 25)"

definition build_summary :: "real option \<Rightarrow> string \<Rightarrow> string" where
  "build_summary bf g =
     (let s = ''Personalized plan generated based on your goal and activity level.''
      in if suffix_applies bf g
         then s @ '' Focus on sustainable deficit, prioritize sleep and steps.''
         else s)"

subsection \<open>The endpoint (main.py, lines 123-182)\<close>

text \<open>Lines 128-171: everything before the store is touched.\<close>

definition compute_rec :: "BodyMetric \<Rightarrow> exn + Recommendation" where
  "compute_rec metrics =
     (let g = goal metrics; activity = activity_level metrics; bf = body_fat_pct metrics
      in case adjust_frequency activity (base_plan g) of
           Inl e \<Rightarrow> Inl e
         | Inr plan \<Rightarrow>
             Inr \<lparr>body_metric_id = None, summary = build_summary bf g, weekly_plan = plan\<rparr>)"

text \<open>
  Lines 173-178, the inner \<^verbatim>\<open>try\<close>: the metrics are stored, then the recommendation with
  the id just obtained; an exception of either call is dropped by \<^verbatim>\<open>except Exception: pass\<close>.
  Only the store changes.
\<close>

definition store_best_effort :: "'s gateway \<Rightarrow> 's \<Rightarrow> BodyMetric \<Rightarrow> Recommendation \<Rightarrow> 's" where
  "store_best_effort create_document db metrics rec =
     (case create_document db ''bodymetric'' (BodyMetricDoc metrics) of
        (Inl e, db1) \<Rightarrow> db1
      | (Inr mid, db1) \<Rightarrow>
          snd (create_document db1 ''recommendation''
                 (RecommendationDoc mid (summary rec) (weekly_plan rec))))"

text \<open>
  The whole handler: the outer \<^verbatim>\<open>try\<close> turns an exception of the computation into
  \<^verbatim>\<open>HTTPException(status_code=500, detail=str(e))\<close>; otherwise \<^verbatim>\<open>rec\<close> is returned
  after the best-effort store.
\<close>

definition recommend_plan :: "'s gateway \<Rightarrow> 's \<Rightarrow> BodyMetric \<Rightarrow> (http_error + Recommendation) \<times> 's" where
  "recommend_plan create_document db metrics =
     (case compute_rec metrics of
        Inl (Exception msg) \<Rightarrow> (Inl (HTTPException 500 msg), db)
      | Inr rec \<Rightarrow> (Inr rec, store_best_effort create_document db metrics rec))"

subsection \<open>Concrete requests and stores\<close>

text \<open>
  A sedentary client with body fat above the threshold, an athlete who wants to gain muscle,
  a client at exactly 25 percent body fat with the default activity level, and a lightly
  active client with the default goal.
\<close>

definition sedentary_fat_loss :: BodyMetric where
  "sedentary_fat_loss =
     \<lparr>gender = ''female'', age = 30, height_cm = 165, weight_kg = 70,
      waist_cm = None, hip_cm = None, neck_cm = None, body_fat_pct = Some 28,
      activity_level = ''sedentary'', goal = ''fat_loss'', member_id = None\<rparr>"

definition athlete_muscle_gain :: BodyMetric where
  "athlete_muscle_gain =
     \<lparr>gender = ''male'', age = 24, height_cm = 180, weight_kg = 78,
      waist_cm = None, hip_cm = None, neck_cm = None, body_fat_pct = None,
      activity_level = ''athlete'', goal = ''muscle_gain'', member_id = None\<rparr>"

definition moderate_at_threshold :: BodyMetric where
  "moderate_at_threshold =
     \<lparr>gender = ''male'', age = 41, height_cm = 175, weight_kg = 90,
      waist_cm = Some 95, hip_cm = None, neck_cm = None, body_fat_pct = Some 25,
      activity_level = ''moderate'', goal = ''fat_loss'', member_id = Some ''m-17''\<rparr>"

definition light_recomp :: BodyMetric where
  "light_recomp =
     \<lparr>gender = ''female'', age = 52, height_cm = 160, weight_kg = 61,
      waist_cm = None, hip_cm = Some 98, neck_cm = None, body_fat_pct = None,
      activity_level = ''light'', goal = ''recomp'', member_id = None\<rparr>"

text \<open>A store that is down, and one that keeps every record it is given.\<close>

definition store_down :: "unit gateway" where
  "store_down db collection doc = (Inl (Exception ''Database not available''), db)"

definition store_up :: "(string \<times> document) list gateway" where
  "store_up db collection doc = (Inr ''id-1'', db @ [(collection, doc)])"

subsection \<open>The adjustment as a rule on one frequency\<close>

text \<open>
  The rule the loops apply, written on a single base frequency, and the item with its
  frequency replaced. The loops are shown below to compute exactly this on every item.
\<close>

definition freq_rule :: "string \<Rightarrow> int \<Rightarrow> int" where
  "freq_rule activity b =
     (if activity = ''sedentary'' \<or> activity = ''light'' then max 1 (b - 1)
      else if activity = ''athlete'' then b + 1
      else b)"

definition with_frequency :: "(int \<Rightarrow> int) \<Rightarrow> ExerciseItem \<Rightarrow> ExerciseItem" where
  "with_frequency f it = it\<lparr>frequency_per_week := f (frequency_per_week it)\<rparr>"

section \<open>Properties\<close>

subsection \<open>The loop over the plan\<close>

lemma set_frequencies_from:
  "k \<le> length plan \<Longrightarrow>
   set_frequencies f [k..<length plan] plan
     = Inr (take k plan @ map (with_frequency f) (drop k plan))"
proof (induction "length plan - k" arbitrary: k plan)
  case 0
  then show ?case by simp
next
  case (Suc d)
  then have lt: "k < length plan" by simp
  let ?plan' = "plan[k := with_frequency f (plan ! k)]"
  have d: "d = length ?plan' - Suc k" using Suc.hyps(2) by simp
  have ih: "set_frequencies f [Suc k..<length ?plan'] ?plan'
      = Inr (take (Suc k) ?plan' @ map (with_frequency f) (drop (Suc k) ?plan'))"
    using Suc.hyps(1) [OF d] lt by simp
  have tk: "take (Suc k) ?plan' = take k plan @ [with_frequency f (plan ! k)]"
    using lt by (simp add: take_Suc_conv_app_nth)
  have dr: "drop (Suc k) ?plan' = drop (Suc k) plan" by simp
  have unfold_drop: "drop k plan = plan ! k # drop (Suc k) plan"
    using lt by (simp add: Cons_nth_drop_Suc)
  have "set_frequencies f [k..<length plan] plan
      = set_frequencies f [Suc k..<length plan] ?plan'"
    using lt by (simp add: upt_conv_Cons item_at_def with_frequency_def)
  also have "\<dots> = Inr (take (Suc k) ?plan' @ map (with_frequency f) (drop (Suc k) ?plan'))"
    using ih by simp
  also have "\<dots> = Inr (take k plan @ map (with_frequency f) (drop k plan))"
    by (simp only: tk dr unfold_drop) simp
  finally show ?case .
qed

lemma set_frequencies_range:
  "set_frequencies f [0..<length plan] plan = Inr (map (with_frequency f) plan)"
  using set_frequencies_from [of 0 plan f] by simp

lemma adjust_frequency_map:
  "adjust_frequency activity plan = Inr (map (with_frequency (freq_rule activity)) plan)"
proof -
  have same: "map (with_frequency (\<lambda>b. b)) plan = plan"
    by (induction plan) (simp_all add: with_frequency_def)
  consider (less) "activity = ''sedentary'' \<or> activity = ''light''"
    | (more) "activity = ''athlete''"
    | (same) "activity \<noteq> ''sedentary''" "activity \<noteq> ''light''" "activity \<noteq> ''athlete''"
    by blast
  then show ?thesis
  proof cases
    case less
    then have "freq_rule activity = (\<lambda>b. max 1 (b - 1))"
      by (auto simp: freq_rule_def fun_eq_iff)
    with less show ?thesis
      by (auto simp: adjust_frequency_def set_frequencies_range)
  next
    case more
    then have "freq_rule activity = (\<lambda>b. b + 1)"
      by (auto simp: freq_rule_def fun_eq_iff)
    with more show ?thesis
      by (simp add: adjust_frequency_def set_frequencies_range)
  next
    case same
    then have "freq_rule activity = (\<lambda>b. b)"
      by (auto simp: freq_rule_def fun_eq_iff)
    with same \<open>map (with_frequency (\<lambda>b. b)) plan = plan\<close> show ?thesis
      by (simp add: adjust_frequency_def)
  qed
qed

subsection \<open>What the handler returns\<close>

lemma compute_rec_value:
  "compute_rec m =
     Inr \<lparr>body_metric_id = None,
          summary = build_summary (body_fat_pct m) (goal m),
          weekly_plan = map (with_frequency (freq_rule (activity_level m))) (base_plan (goal m))\<rparr>"
  by (simp add: compute_rec_def adjust_frequency_map Let_def)

lemma recommend_plan_value:
  "fst (recommend_plan create_document db m) =
     Inr \<lparr>body_metric_id = None,
          summary = build_summary (body_fat_pct m) (goal m),
          weekly_plan = map (with_frequency (freq_rule (activity_level m))) (base_plan (goal m))\<rparr>"
  by (simp add: recommend_plan_def compute_rec_value)

lemma base_plan_bounds:
  "it \<in> set (base_plan g) \<Longrightarrow>
     1 \<le> frequency_per_week it \<and> frequency_per_week it \<le> 3 \<and> 0 < sets it"
  by (auto simp: base_plan_def add_def split: if_splits)

lemma freq_rule_bounds:
  "1 \<le> b \<Longrightarrow> b \<le> 3 \<Longrightarrow> 1 \<le> freq_rule activity b \<and> freq_rule activity b \<le> 4"
  by (simp add: freq_rule_def)

lemma valid_sedentary_fat_loss: "valid_BodyMetric sedentary_fat_loss"
  by (simp add: valid_BodyMetric_def sedentary_fat_loss_def opt_between_def)

lemma valid_athlete_muscle_gain: "valid_BodyMetric athlete_muscle_gain"
  by (simp add: valid_BodyMetric_def athlete_muscle_gain_def opt_between_def)

lemma valid_moderate_at_threshold: "valid_BodyMetric moderate_at_threshold"
  by (simp add: valid_BodyMetric_def moderate_at_threshold_def opt_between_def)

lemma valid_light_recomp: "valid_BodyMetric light_recomp"
  by (simp add: valid_BodyMetric_def light_recomp_def opt_between_def)

subsection \<open>Claims\<close>

text \<open>
  C1. For every request (valid ones in particular) and every store, the plan the handler
  selects is fixed by the goal alone. With \<^verbatim>\<open>fat_loss\<close> the first stage builds the three
  items Treadmill Intervals, Full-Body Circuit, Core Stability with sets, reps and base
  frequencies 6, 1 min fast / 2 min easy, 3; 4, 12-15 reps, 2; 3, 12-15 reps, 2. With
  \<^verbatim>\<open>muscle_gain\<close> it builds the four items Barbell Squat, Bench Press, Deadlift, Accessory
  (Rows, Press, Pull-ups) with 5, 5-8 reps, 2; 5, 5-8 reps, 2; 3, 3-5 reps, 1; 4, 8-12 reps,
  2. With any other goal (\<^verbatim>\<open>recomp\<close> among them) it builds the three items Upper/Lower
  Split Strength, Zone 2 Cardio, Mobility \<open>&\<close> Core with 4, 6-10 reps, 3; 1, 30-40 mins, 2;
  3, 10-15 reps, 2. The returned plan carries exactly these names, sets and reps in this
  order, and it is the base plan itself, base frequencies included, when the activity level
  is \<^verbatim>\<open>moderate\<close> or \<^verbatim>\<open>active\<close>.
\<close>

theorem plan_selected_by_goal:
  "\<exists>r. fst (recommend_plan create_document db m) = Inr r
     \<and> (goal m = ''fat_loss'' \<longrightarrow>
          base_plan (goal m) =
            [\<lparr>name = ''Treadmill Intervals'', sets = 6, reps = ''1 min fast / 2 min easy'',
               frequency_per_week = 3\<rparr>,
             \<lparr>name = ''Full-Body Circuit'', sets = 4, reps = ''12-15 reps'',
               frequency_per_week = 2\<rparr>,
             \<lparr>name = ''Core Stability'', sets = 3, reps = ''12-15 reps'',
               frequency_per_week = 2\<rparr>]
        \<and> map (\<lambda>it. (name it, sets it, reps it)) (weekly_plan r) =
            [(''Treadmill Intervals'', 6, ''1 min fast / 2 min easy''),
             (''Full-Body Circuit'', 4, ''12-15 reps''),
             (''Core Stability'', 3, ''12-15 reps'')])
     \<and> (goal m = ''muscle_gain'' \<longrightarrow>
          base_plan (goal m) =
            [\<lparr>name = ''Barbell Squat'', sets = 5, reps = ''5-8 reps'', frequency_per_week = 2\<rparr>,
             \<lparr>name = ''Bench Press'', sets = 5, reps = ''5-8 reps'', frequency_per_week = 2\<rparr>,
             \<lparr>name = ''Deadlift'', sets = 3, reps = ''3-5 reps'', frequency_per_week = 1\<rparr>,
             \<lparr>name = ''Accessory (Rows, Press, Pull-ups)'', sets = 4, reps = ''8-12 reps'',
               frequency_per_week = 2\<rparr>]
        \<and> map (\<lambda>it. (name it, sets it, reps it)) (weekly_plan r) =
            [(''Barbell Squat'', 5, ''5-8 reps''),
             (''Bench Press'', 5, ''5-8 reps''),
             (''Deadlift'', 3, ''3-5 reps''),
             (''Accessory (Rows, Press, Pull-ups)'', 4, ''8-12 reps'')])
     \<and> (goal m \<noteq> ''fat_loss'' \<and> goal m \<noteq> ''muscle_gain'' \<longrightarrow>
          base_plan (goal m) =
            [\<lparr>name = ''Upper/Lower Split Strength'', sets = 4, reps = ''6-10 reps'',
               frequency_per_week = 3\<rparr>,
             \<lparr>name = ''Zone 2 Cardio'', sets = 1, reps = ''30-40 mins'', frequency_per_week = 2\<rparr>,
             \<lparr>name = ''Mobility & Core'', sets = 3, reps = ''10-15 reps'',
               frequency_per_week = 2\<rparr>]
        \<and> map (\<lambda>it. (name it, sets it, reps it)) (weekly_plan r) =
            [(''Upper/Lower Split Strength'', 4, ''6-10 reps''),
             (''Zone 2 Cardio'', 1, ''30-40 mins''),
             (''Mobility & Core'', 3, ''10-15 reps'')])
     \<and> (activity_level m = ''moderate'' \<or> activity_level m = ''active'' \<longrightarrow>
          weekly_plan r = base_plan (goal m))"
proof -
  let ?r = "\<lparr>body_metric_id = None,
             summary = build_summary (body_fat_pct m) (goal m),
             weekly_plan = map (with_frequency (freq_rule (activity_level m)))
                               (base_plan (goal m))\<rparr>"
  have same: "map (with_frequency (\<lambda>b. b)) plan = plan" for plan
    by (induction plan) (simp_all add: with_frequency_def)
  have unchanged: "weekly_plan ?r = base_plan (goal m)"
    if "activity_level m = ''moderate'' \<or> activity_level m = ''active''"
  proof -
    from that have "freq_rule (activity_level m) = (\<lambda>b. b)"
      by (auto simp: freq_rule_def fun_eq_iff)
    then show ?thesis by (simp add: same)
  qed
  have fat: "base_plan ''fat_loss'' =
            [\<lparr>name = ''Treadmill Intervals'', sets = 6, reps = ''1 min fast / 2 min easy'',
               frequency_per_week = 3\<rparr>,
             \<lparr>name = ''Full-Body Circuit'', sets = 4, reps = ''12-15 reps'',
               frequency_per_week = 2\<rparr>,
             \<lparr>name = ''Core Stability'', sets = 3, reps = ''12-15 reps'',
               frequency_per_week = 2\<rparr>]"
    by (simp add: base_plan_def add_def)
  have gain: "base_plan ''muscle_gain'' =
            [\<lparr>name = ''Barbell Squat'', sets = 5, reps = ''5-8 reps'', frequency_per_week = 2\<rparr>,
             \<lparr>name = ''Bench Press'', sets = 5, reps = ''5-8 reps'', frequency_per_week = 2\<rparr>,
             \<lparr>name = ''Deadlift'', sets = 3, reps = ''3-5 reps'', frequency_per_week = 1\<rparr>,
             \<lparr>name = ''Accessory (Rows, Press, Pull-ups)'', sets = 4, reps = ''8-12 reps'',
               frequency_per_week = 2\<rparr>]"
    by (simp add: base_plan_def add_def)
  have other: "base_plan g =
            [\<lparr>name = ''Upper/Lower Split Strength'', sets = 4, reps = ''6-10 reps'',
               frequency_per_week = 3\<rparr>,
             \<lparr>name = ''Zone 2 Cardio'', sets = 1, reps = ''30-40 mins'', frequency_per_week = 2\<rparr>,
             \<lparr>name = ''Mobility & Core'', sets = 3, reps = ''10-15 reps'',
               frequency_per_week = 2\<rparr>]"
    if "g \<noteq> ''fat_loss''" "g \<noteq> ''muscle_gain''" for g
    using that by (simp add: base_plan_def add_def)
  show ?thesis
  proof (rule exI [of _ ?r], intro conjI impI)
    show "fst (recommend_plan create_document db m) = Inr ?r"
      by (rule recommend_plan_value)
  next
    assume "activity_level m = ''moderate'' \<or> activity_level m = ''active''"
    then show "weekly_plan ?r = base_plan (goal m)" by (rule unchanged)
  qed (simp_all add: fat gain other with_frequency_def)
qed

theorem plan_selected_by_goal_witness:
  "valid_BodyMetric moderate_at_threshold \<and> valid_BodyMetric athlete_muscle_gain \<and>
   valid_BodyMetric light_recomp \<and>
   (\<exists>r. fst (recommend_plan store_down () moderate_at_threshold) = Inr r \<and>
        weekly_plan r =
          [\<lparr>name = ''Treadmill Intervals'', sets = 6, reps = ''1 min fast / 2 min easy'',
             frequency_per_week = 3\<rparr>,
           \<lparr>name = ''Full-Body Circuit'', sets = 4, reps = ''12-15 reps'',
             frequency_per_week = 2\<rparr>,
           \<lparr>name = ''Core Stability'', sets = 3, reps = ''12-15 reps'',
             frequency_per_week = 2\<rparr>]) \<and>
   (\<exists>r. fst (recommend_plan store_down () athlete_muscle_gain) = Inr r \<and>
        map (\<lambda>it. (name it, sets it, reps it)) (weekly_plan r) =
          [(''Barbell Squat'', 5, ''5-8 reps''),
           (''Bench Press'', 5, ''5-8 reps''),
           (''Deadlift'', 3, ''3-5 reps''),
           (''Accessory (Rows, Press, Pull-ups)'', 4, ''8-12 reps'')]) \<and>
   (\<exists>r. fst (recommend_plan store_up [] light_recomp) = Inr r \<and>
        map (\<lambda>it. (name it, sets it, reps it)) (weekly_plan r) =
          [(''Upper/Lower Split Strength'', 4, ''6-10 reps''),
           (''Zone 2 Cardio'', 1, ''30-40 mins''),
           (''Mobility & Core'', 3, ''10-15 reps'')])"
proof -
  have g1: "goal moderate_at_threshold = ''fat_loss''"
    and a1: "activity_level moderate_at_threshold = ''moderate''"
    by (simp_all add: moderate_at_threshold_def)
  have g2: "goal athlete_muscle_gain = ''muscle_gain''"
    by (simp add: athlete_muscle_gain_def)
  have g3: "goal light_recomp \<noteq> ''fat_loss'' \<and> goal light_recomp \<noteq> ''muscle_gain''"
    by (simp add: light_recomp_def)
  from plan_selected_by_goal [where m = moderate_at_threshold
      and create_document = store_down and db = "()"] g1 a1
  have first: "\<exists>r. fst (recommend_plan store_down () moderate_at_threshold) = Inr r \<and>
        weekly_plan r =
          [\<lparr>name = ''Treadmill Intervals'', sets = 6, reps = ''1 min fast / 2 min easy'',
             frequency_per_week = 3\<rparr>,
           \<lparr>name = ''Full-Body Circuit'', sets = 4, reps = ''12-15 reps'',
             frequency_per_week = 2\<rparr>,
           \<lparr>name = ''Core Stability'', sets = 3, reps = ''12-15 reps'',
             frequency_per_week = 2\<rparr>]"
    by auto
  from plan_selected_by_goal [where m = athlete_muscle_gain
      and create_document = store_down and db = "()"] g2
  have second: "\<exists>r. fst (recommend_plan store_down () athlete_muscle_gain) = Inr r \<and>
        map (\<lambda>it. (name it, sets it, reps it)) (weekly_plan r) =
          [(''Barbell Squat'', 5, ''5-8 reps''),
           (''Bench Press'', 5, ''5-8 reps''),
           (''Deadlift'', 3, ''3-5 reps''),
           (''Accessory (Rows, Press, Pull-ups)'', 4, ''8-12 reps'')]"
    by auto
  from plan_selected_by_goal [where m = light_recomp
      and create_document = store_up and db = "[]"] g3
  have third: "\<exists>r. fst (recommend_plan store_up [] light_recomp) = Inr r \<and>
        map (\<lambda>it. (name it, sets it, reps it)) (weekly_plan r) =
          [(''Upper/Lower Split Strength'', 4, ''6-10 reps''),
           (''Zone 2 Cardio'', 1, ''30-40 mins''),
           (''Mobility & Core'', 3, ''10-15 reps'')]"
    by auto
  show ?thesis
    by (intro conjI valid_moderate_at_threshold valid_athlete_muscle_gain valid_light_recomp
          first second third)
qed

text \<open>
  C6. For the female client of 30 years, 165 cm and 70 kg, sedentary, with goal
  \<^verbatim>\<open>fat_loss\<close> and 28 percent body fat, the plan returned is Treadmill Intervals twice a
  week, Full-Body Circuit once, Core Stability once, and the summary is the base sentence
  followed by the advice on deficit, sleep and steps; whatever the store does.
\<close>

theorem example_end_to_end:
  "\<exists>r. fst (recommend_plan create_document db
              \<lparr>gender = ''female'', age = 30, height_cm = 165, weight_kg = 70,
               waist_cm = None, hip_cm = None, neck_cm = None, body_fat_pct = Some 28,
               activity_level = ''sedentary'', goal = ''fat_loss'', member_id = None\<rparr>) = Inr r
     \<and> map (\<lambda>it. (name it, frequency_per_week it)) (weekly_plan r) =
         [(''Treadmill Intervals'', 2), (''Full-Body Circuit'', 1), (''Core Stability'', 1)]
     \<and> summary r =
         ''Personalized plan generated based on your goal and activity level. Focus on sustainable deficit, prioritize sleep and steps.''"
  by (simp add: recommend_plan_value base_plan_def add_def with_frequency_def freq_rule_def
        build_summary_def suffix_applies_def)

text \<open>
  C7. For every valid request and every store, the recommendation returned has no
  \<^verbatim>\<open>body_metric_id\<close>, also when the metrics were stored and an id was obtained.
\<close>

theorem body_metric_id_is_none:
  assumes "valid_BodyMetric m"
  shows "\<exists>r. fst (recommend_plan create_document db m) = Inr r \<and> body_metric_id r = None"
  by (simp add: recommend_plan_value)

theorem body_metric_id_is_none_witness:
  "valid_BodyMetric sedentary_fat_loss \<and>
   (\<exists>r. fst (recommend_plan store_up [] sedentary_fat_loss) = Inr r \<and> body_metric_id r = None) \<and>
   snd (recommend_plan store_up [] sedentary_fat_loss) =
     [(''bodymetric'', BodyMetricDoc sedentary_fat_loss),
      (''recommendation'',
       RecommendationDoc ''id-1''
         ''Personalized plan generated based on your goal and activity level. Focus on sustainable deficit, prioritize sleep and steps.''
         [\<lparr>name = ''Treadmill Intervals'', sets = 6, reps = ''1 min fast / 2 min easy'',
            frequency_per_week = 2\<rparr>,
          \<lparr>name = ''Full-Body Circuit'', sets = 4, reps = ''12-15 reps'',
            frequency_per_week = 1\<rparr>,
          \<lparr>name = ''Core Stability'', sets = 3, reps = ''12-15 reps'',
            frequency_per_week = 1\<rparr>])]"
proof -
  have stored: "snd (recommend_plan store_up [] sedentary_fat_loss) =
     [(''bodymetric'', BodyMetricDoc sedentary_fat_loss),
      (''recommendation'',
       RecommendationDoc ''id-1''
         ''Personalized plan generated based on your goal and activity level. Focus on sustainable deficit, prioritize sleep and steps.''
         [\<lparr>name = ''Treadmill Intervals'', sets = 6, reps = ''1 min fast / 2 min easy'',
            frequency_per_week = 2\<rparr>,
          \<lparr>name = ''Full-Body Circuit'', sets = 4, reps = ''12-15 reps'',
            frequency_per_week = 1\<rparr>,
          \<lparr>name = ''Core Stability'', sets = 3, reps = ''12-15 reps'',
            frequency_per_week = 1\<rparr>])]"
    by (simp add: recommend_plan_def compute_rec_value store_best_effort_def store_up_def
          base_plan_def add_def with_frequency_def freq_rule_def build_summary_def
          suffix_applies_def sedentary_fat_loss_def)
  from body_metric_id_is_none [OF valid_sedentary_fat_loss, of store_up "[]"]
    valid_sedentary_fat_loss stored
  show ?thesis by blast
qed

text \<open>
  C2. For every valid request and every item of the base plan for its goal, the frequency
  in the returned plan is \<open>max 1 (base - 1)\<close> when the activity level is \<^verbatim>\<open>sedentary\<close> or
  \<^verbatim>\<open>light\<close>, \<open>base + 1\<close> when it is \<^verbatim>\<open>athlete\<close>, and the base frequency when it is
  \<^verbatim>\<open>moderate\<close> or \<^verbatim>\<open>active\<close>.
\<close>

theorem frequency_by_activity:
  assumes "valid_BodyMetric m"
  shows "\<exists>r. fst (recommend_plan create_document db m) = Inr r
     \<and> length (weekly_plan r) = length (base_plan (goal m))
     \<and> (\<forall>i < length (base_plan (goal m)).
          (activity_level m = ''sedentary'' \<or> activity_level m = ''light'' \<longrightarrow>
             frequency_per_week (weekly_plan r ! i)
               = max 1 (frequency_per_week (base_plan (goal m) ! i) - 1))
        \<and> (activity_level m = ''athlete'' \<longrightarrow>
             frequency_per_week (weekly_plan r ! i)
               = frequency_per_week (base_plan (goal m) ! i) + 1)
        \<and> (activity_level m = ''moderate'' \<or> activity_level m = ''active'' \<longrightarrow>
             frequency_per_week (weekly_plan r ! i)
               = frequency_per_week (base_plan (goal m) ! i)))"
  by (auto simp: recommend_plan_value with_frequency_def freq_rule_def)

theorem frequency_by_activity_witness:
  "valid_BodyMetric athlete_muscle_gain \<and>
   (\<exists>r. fst (recommend_plan store_down () athlete_muscle_gain) = Inr r \<and>
        map frequency_per_week (weekly_plan r) = [3, 3, 2, 3])"
proof -
  have base: "base_plan (goal athlete_muscle_gain) =
     [\<lparr>name = ''Barbell Squat'', sets = 5, reps = ''5-8 reps'', frequency_per_week = 2\<rparr>,
      \<lparr>name = ''Bench Press'', sets = 5, reps = ''5-8 reps'', frequency_per_week = 2\<rparr>,
      \<lparr>name = ''Deadlift'', sets = 3, reps = ''3-5 reps'', frequency_per_week = 1\<rparr>,
      \<lparr>name = ''Accessory (Rows, Press, Pull-ups)'', sets = 4, reps = ''8-12 reps'',
        frequency_per_week = 2\<rparr>]"
    by (simp add: athlete_muscle_gain_def base_plan_def add_def)
  have act: "activity_level athlete_muscle_gain = ''athlete''"
    by (simp add: athlete_muscle_gain_def)
  from frequency_by_activity [OF valid_athlete_muscle_gain, of store_down "()"]
  obtain r where ret: "fst (recommend_plan store_down () athlete_muscle_gain) = Inr r"
    and len: "length (weekly_plan r) = length (base_plan (goal athlete_muscle_gain))"
    and fr: "\<And>i. i < length (base_plan (goal athlete_muscle_gain)) \<Longrightarrow>
        frequency_per_week (weekly_plan r ! i)
          = frequency_per_week (base_plan (goal athlete_muscle_gain) ! i) + 1"
    using act by blast
  have l4: "length (weekly_plan r) = 4" using len base by simp
  have "frequency_per_week (weekly_plan r ! 0) = 3" using fr [of 0] base by simp
  moreover have "frequency_per_week (weekly_plan r ! 1) = 3" using fr [of 1] base by simp
  moreover have "frequency_per_week (weekly_plan r ! 2) = 2" using fr [of 2] base by simp
  moreover have "frequency_per_week (weekly_plan r ! 3) = 3" using fr [of 3] base by simp
  ultimately have freqs: "map frequency_per_week (weekly_plan r) = [3, 3, 2, 3]"
    using l4 by (intro nth_equalityI) (auto simp: less_Suc_eq numeral_eq_Suc)
  have "\<exists>r. fst (recommend_plan store_down () athlete_muscle_gain) = Inr r \<and>
        map frequency_per_week (weekly_plan r) = [3, 3, 2, 3]"
    by (rule exI [of _ r]) (simp add: ret freqs)
  with valid_athlete_muscle_gain show ?thesis by (rule conjI)
qed

text \<open>
  C3. For every valid request the summary is the base sentence, followed by the advice on
  deficit, sleep and steps exactly when the goal is \<^verbatim>\<open>fat_loss\<close> and a body-fat value is
  given and exceeds 25; a value of exactly 25 leaves the base sentence alone.
\<close>

theorem summary_text:
  assumes "valid_BodyMetric m"
  shows "\<exists>r. fst (recommend_plan create_document db m) = Inr r
     \<and> summary r =
         (if goal m = ''fat_loss'' \<and> (\<exists>x. body_fat_pct m = Some x \<and> x > 25)
          then ''Personalized plan generated based on your goal and activity level.''
               @ '' Focus on sustainable deficit, prioritize sleep and steps.''
          else ''Personalized plan generated based on your goal and activity level.'')
     \<and> (body_fat_pct m = Some 25 \<longrightarrow>
          summary r = ''Personalized plan generated based on your goal and activity level.'')"
  by (auto simp: recommend_plan_value build_summary_def suffix_applies_def
        split: option.splits)

theorem summary_text_witness:
  "valid_BodyMetric moderate_at_threshold \<and>
   goal moderate_at_threshold = ''fat_loss'' \<and>
   body_fat_pct moderate_at_threshold = Some 25 \<and>
   (\<exists>r. fst (recommend_plan store_down () moderate_at_threshold) = Inr r \<and>
        summary r = ''Personalized plan generated based on your goal and activity level.'')"
proof -
  have g: "goal moderate_at_threshold = ''fat_loss''"
    and bf: "body_fat_pct moderate_at_threshold = Some 25"
    by (simp_all add: moderate_at_threshold_def)
  from summary_text [OF valid_moderate_at_threshold, of store_down "()"] bf
  have "\<exists>r. fst (recommend_plan store_down () moderate_at_threshold) = Inr r \<and>
        summary r = ''Personalized plan generated based on your goal and activity level.''"
    by blast
  with valid_moderate_at_threshold g bf show ?thesis by blast
qed

text \<open>
  C4. For every valid request, every item of the returned plan has a weekly frequency of
  at least 1.
\<close>

theorem frequency_at_least_one:
  assumes "valid_BodyMetric m"
  shows "\<exists>r. fst (recommend_plan create_document db m) = Inr r
     \<and> (\<forall>it \<in> set (weekly_plan r). 1 \<le> frequency_per_week it)"
proof -
  have "1 \<le> frequency_per_week (with_frequency (freq_rule (activity_level m)) b)"
    if "b \<in> set (base_plan (goal m))" for b
    using base_plan_bounds [OF that] freq_rule_bounds [of "frequency_per_week b"]
    by (simp add: with_frequency_def)
  then show ?thesis by (simp add: recommend_plan_value)
qed

theorem frequency_at_least_one_witness:
  "valid_BodyMetric sedentary_fat_loss \<and>
   (\<exists>r. fst (recommend_plan store_down () sedentary_fat_loss) = Inr r \<and>
        frequency_per_week (weekly_plan r ! 2) = 1 \<and>
        (\<forall>it \<in> set (weekly_plan r). 1 \<le> frequency_per_week it))"
proof -
  have third: "frequency_per_week (weekly_plan r ! 2) = 1"
    if "fst (recommend_plan store_down () sedentary_fat_loss) = Inr r" for r
    using that
    by (auto simp: recommend_plan_value sedentary_fat_loss_def base_plan_def add_def
          with_frequency_def freq_rule_def)
  from frequency_at_least_one [OF valid_sedentary_fat_loss, of store_down "()"]
    valid_sedentary_fat_loss third
  show ?thesis by blast
qed

text \<open>
  C5. For every valid request the adjustment changes frequencies only: the returned plan
  has as many items as the base plan for the goal, with the same names, sets and reps,
  position by position, so nothing is added, removed or reordered.
\<close>

theorem adjustment_frame:
  assumes "valid_BodyMetric m"
  shows "\<exists>r. fst (recommend_plan create_document db m) = Inr r
     \<and> length (weekly_plan r) = length (base_plan (goal m))
     \<and> map name (weekly_plan r) = map name (base_plan (goal m))
     \<and> map sets (weekly_plan r) = map sets (base_plan (goal m))
     \<and> map reps (weekly_plan r) = map reps (base_plan (goal m))"
  by (simp add: recommend_plan_value with_frequency_def comp_def)

theorem adjustment_frame_witness:
  "valid_BodyMetric athlete_muscle_gain \<and>
   (\<exists>r. fst (recommend_plan store_down () athlete_muscle_gain) = Inr r \<and>
        length (weekly_plan r) = 4 \<and>
        map name (weekly_plan r) =
          [''Barbell Squat'', ''Bench Press'', ''Deadlift'', ''Accessory (Rows, Press, Pull-ups)''] \<and>
        map sets (weekly_plan r) = [5, 5, 3, 4] \<and>
        map reps (weekly_plan r) = [''5-8 reps'', ''5-8 reps'', ''3-5 reps'', ''8-12 reps''])"
proof -
  have base: "base_plan (goal athlete_muscle_gain) =
     [\<lparr>name = ''Barbell Squat'', sets = 5, reps = ''5-8 reps'', frequency_per_week = 2\<rparr>,
      \<lparr>name = ''Bench Press'', sets = 5, reps = ''5-8 reps'', frequency_per_week = 2\<rparr>,
      \<lparr>name = ''Deadlift'', sets = 3, reps = ''3-5 reps'', frequency_per_week = 1\<rparr>,
      \<lparr>name = ''Accessory (Rows, Press, Pull-ups)'', sets = 4, reps = ''8-12 reps'',
        frequency_per_week = 2\<rparr>]"
    by (simp add: athlete_muscle_gain_def base_plan_def add_def)
  from adjustment_frame [OF valid_athlete_muscle_gain, of store_down "()"]
  obtain r where ret: "fst (recommend_plan store_down () athlete_muscle_gain) = Inr r"
    and len: "length (weekly_plan r) = length (base_plan (goal athlete_muscle_gain))"
    and nm: "map name (weekly_plan r) = map name (base_plan (goal athlete_muscle_gain))"
    and st: "map sets (weekly_plan r) = map sets (base_plan (goal athlete_muscle_gain))"
    and rp: "map reps (weekly_plan r) = map reps (base_plan (goal athlete_muscle_gain))"
    by blast
  have "\<exists>r. fst (recommend_plan store_down () athlete_muscle_gain) = Inr r \<and>
        length (weekly_plan r) = 4 \<and>
        map name (weekly_plan r) =
          [''Barbell Squat'', ''Bench Press'', ''Deadlift'', ''Accessory (Rows, Press, Pull-ups)''] \<and>
        map sets (weekly_plan r) = [5, 5, 3, 4] \<and>
        map reps (weekly_plan r) = [''5-8 reps'', ''5-8 reps'', ''3-5 reps'', ''8-12 reps'']"
    by (rule exI [of _ r]) (simp add: ret len nm st rp base)
  with valid_athlete_muscle_gain show ?thesis by (rule conjI)
qed

text \<open>
  C8. For every valid request the handler returns a recommendation: the computation raises
  nothing, so the branch that answers with status 500 is never taken, whatever the store
  does.
\<close>

theorem recommend_never_fails:
  assumes "valid_BodyMetric m"
  shows "(\<exists>r. compute_rec m = Inr r)
     \<and> (\<exists>r. fst (recommend_plan create_document db m) = Inr r)
     \<and> (\<forall>code detail. fst (recommend_plan create_document db m) \<noteq> Inl (HTTPException code detail))"
  by (simp add: recommend_plan_value compute_rec_value)

theorem recommend_never_fails_witness:
  "valid_BodyMetric moderate_at_threshold \<and>
   (\<exists>r. fst (recommend_plan store_down () moderate_at_threshold) = Inr r) \<and>
   fst (recommend_plan store_down () moderate_at_threshold)
     \<noteq> Inl (HTTPException 500 ''Database not available'')"
proof -
  from recommend_never_fails [OF valid_moderate_at_threshold, of store_down "()"]
  have "(\<exists>r. fst (recommend_plan store_down () moderate_at_threshold) = Inr r) \<and>
     fst (recommend_plan store_down () moderate_at_threshold)
       \<noteq> Inl (HTTPException 500 ''Database not available'')"
    by blast
  with valid_moderate_at_threshold show ?thesis by (rule conjI)
qed

text \<open>
  C9. For every valid request, any two stores (working or failing, of any kind) lead to
  the same returned recommendation, and neither run ends in an error: what
  \<^verbatim>\<open>create_document\<close> does is dropped by the inner \<^verbatim>\<open>try\<close>.
\<close>

theorem store_does_not_matter:
  assumes "valid_BodyMetric m"
  shows "\<exists>r. fst (recommend_plan create_document db m) = Inr r
     \<and> fst (recommend_plan create_document' db' m) = Inr r"
  by (simp add: recommend_plan_value)

theorem store_does_not_matter_witness:
  "valid_BodyMetric sedentary_fat_loss \<and>
   (\<exists>r. fst (recommend_plan store_down () sedentary_fat_loss) = Inr r \<and>
        fst (recommend_plan store_up [] sedentary_fat_loss) = Inr r) \<and>
   snd (recommend_plan store_down () sedentary_fat_loss) = () \<and>
   length (snd (recommend_plan store_up [] sedentary_fat_loss)) = 2"
proof -
  have stored: "length (snd (recommend_plan store_up [] sedentary_fat_loss)) = 2"
    by (simp add: recommend_plan_def compute_rec_value store_best_effort_def store_up_def)
  have "snd (recommend_plan store_down () sedentary_fat_loss) = ()" by simp
  with store_does_not_matter [OF valid_sedentary_fat_loss, of store_down "()" store_up "[]"]
    valid_sedentary_fat_loss stored
  show ?thesis by blast
qed

text \<open>
  C10. For every valid request, every item of the returned plan has a weekly frequency
  between 1 and 4 and a positive number of sets.
\<close>

theorem frequency_and_sets_bounds:
  assumes "valid_BodyMetric m"
  shows "\<exists>r. fst (recommend_plan create_document db m) = Inr r
     \<and> (\<forall>it \<in> set (weekly_plan r).
          1 \<le> frequency_per_week it \<and> frequency_per_week it \<le> 4 \<and> 0 < sets it)"
proof -
  have "1 \<le> frequency_per_week (with_frequency (freq_rule (activity_level m)) b)
      \<and> frequency_per_week (with_frequency (freq_rule (activity_level m)) b) \<le> 4
      \<and> 0 < sets (with_frequency (freq_rule (activity_level m)) b)"
    if "b \<in> set (base_plan (goal m))" for b
    using base_plan_bounds [OF that] freq_rule_bounds [of "frequency_per_week b"]
    by (simp add: with_frequency_def)
  then show ?thesis by (simp add: recommend_plan_value)
qed

theorem frequency_and_sets_bounds_witness:
  "valid_BodyMetric athlete_muscle_gain \<and>
   (\<exists>r. fst (recommend_plan store_up [] athlete_muscle_gain) = Inr r \<and>
        weekly_plan r \<noteq> [] \<and>
        (\<forall>it \<in> set (weekly_plan r).
          1 \<le> frequency_per_week it \<and> frequency_per_week it \<le> 4 \<and> 0 < sets it))"
proof -
  have nonempty: "weekly_plan r \<noteq> []"
    if "fst (recommend_plan store_up [] athlete_muscle_gain) = Inr r" for r
    using that
    by (auto simp: recommend_plan_value athlete_muscle_gain_def base_plan_def add_def)
  from frequency_and_sets_bounds [OF valid_athlete_muscle_gain, of store_up "[]"]
    valid_athlete_muscle_gain nonempty
  show ?thesis by blast
qed

end
